theory Spec2Isabelle
  imports Main
begin

section \<open>Spectral-line helpers (ism\_lines\_helpers.py)\<close>

text \<open>
  A shallow embedding of \<^verbatim>\<open>src/ism_lines_helpers.py\<close>. Python strings are modelled as
  \<^typ>\<open>string\<close>, read as sequences of code points below 256; on that range the
  regular-expression class \<^verbatim>\<open>\d\<close> is exactly \<^verbatim>\<open>0-9\<close>. Python integers are \<^typ>\<open>int\<close>.
  An exception is a value of \<open>error\<close>; the calls to \<^verbatim>\<open>warn\<close> are collected, in
  order, in a list of messages returned beside the result. A leading underscore of a
  source name is written \<open>l_\<close> (the source files these functions under
  "Local functions").
\<close>

subsection \<open>Exceptions and string primitives\<close>

datatype error =
  ValueError | RuntimeError | AttributeError | ZeroDivisionError | IndexError | TypeError

definition backslash :: char where
  "backslash = CHR 0x5C"

definition is_digit :: "char \<Rightarrow> bool" where
  "is_digit c = (c \<in> set ''0123456789'')"

text \<open>\<^verbatim>\<open>s.startswith(p)\<close>.\<close>

definition startswith :: "string \<Rightarrow> string \<Rightarrow> bool" where
  "startswith s p = (take (length p) s = p)"

text \<open>\<^verbatim>\<open>s.replace(a, b)\<close> for single characters \<open>a\<close> and \<open>b\<close>.\<close>

definition replace_char :: "char \<Rightarrow> char \<Rightarrow> string \<Rightarrow> string" where
  "replace_char a b s = map (\<lambda>c. if c = a then b else c) s"

text \<open>
  \<^verbatim>\<open>_removeprefixes(string, *prefixes)\<close>: the prefixes are tried once each, in order,
  and each one that is present at that moment is cut off.
\<close>

fun l_removeprefixes :: "string \<Rightarrow> string list \<Rightarrow> string" where
  "l_removeprefixes s [] = s"
| "l_removeprefixes s (p # ps) =
     l_removeprefixes (if startswith s p then drop (length p) s else s) ps"

text \<open>
  \<^verbatim>\<open>transition.count("__")\<close> and \<^verbatim>\<open>transition.split("__")\<close>: both scan from the left
  for non-overlapping occurrences of the separator. \<open>split_dunder\<close> carries the part
  being read, reversed.
\<close>

fun count_dunder :: "string \<Rightarrow> nat" where
  "count_dunder (c # d # r) =
     (if c = CHR ''_'' \<and> d = CHR ''_'' then Suc (count_dunder r) else count_dunder (d # r))"
| "count_dunder r = 0"

fun split_dunder :: "string \<Rightarrow> string \<Rightarrow> string list" where
  "split_dunder cur (c # d # r) =
     (if c = CHR ''_'' \<and> d = CHR ''_'' then rev cur # split_dunder [] r
      else split_dunder (c # cur) (d # r))"
| "split_dunder cur [c] = [rev (c # cur)]"
| "split_dunder cur [] = [rev cur]"

subsection \<open>The grammar tiers of \<^verbatim>\<open>transition_to_latex\<close>\<close>

text \<open>
  Each \<^verbatim>\<open>re.match\<close> of the source is a function that returns the end of the match.
  In every alternation of the source no alternative is a prefix of another, so the first
  alternative that is a prefix of the text is the only one that can match; \<^verbatim>\<open>\d*\<close> is
  greedy and is always followed by a character that is not a digit, so it takes the whole
  run of digits.
\<close>

definition match_alt :: "string list \<Rightarrow> string \<Rightarrow> string option" where
  "match_alt alts s = find (startswith s) alts"

definition energy_names :: "string list" where
  "energy_names = [''j'', ''v'', ''n'', ''f'', ''ka'', ''kc'']"

definition digits_len :: "string \<Rightarrow> nat" where
  "digits_len s = length (takeWhile is_digit s)"

text \<open>\<^verbatim>\<open>re.match("\A(j|v|n|f|ka|kc)", s).group()\<close>\<close>

definition re_name :: "string \<Rightarrow> string option" where
  "re_name s = match_alt energy_names s"

text \<open>\<^verbatim>\<open>"\A(j|v|n|f|ka|kc)\d*_2"\<close>\<close>

definition re_fraction :: "string \<Rightarrow> nat option" where
  "re_fraction s =
     (case match_alt energy_names s of
        None \<Rightarrow> None
      | Some nm \<Rightarrow>
          (let k = length nm + digits_len (drop (length nm) s)
           in if startswith (drop k s) ''_2'' then Some (k + 2) else None))"

text \<open>\<^verbatim>\<open>"\A(j|v|n|f|ka|kc)\d*d\d*"\<close>\<close>

definition re_decimal :: "string \<Rightarrow> nat option" where
  "re_decimal s =
     (case match_alt energy_names s of
        None \<Rightarrow> None
      | Some nm \<Rightarrow>
          (let k = length nm + digits_len (drop (length nm) s)
           in if startswith (drop k s) ''d''
              then Some (k + 1 + digits_len (drop (k + 1) s)) else None))"

text \<open>\<^verbatim>\<open>"\A(j|v|n|f|ka|kc)\d*"\<close>\<close>

definition re_integer :: "string \<Rightarrow> nat option" where
  "re_integer s =
     (case match_alt energy_names s of
        None \<Rightarrow> None
      | Some nm \<Rightarrow> Some (length nm + digits_len (drop (length nm) s)))"

text \<open>\<^verbatim>\<open>"\Ael\d*(po|so|do)"\<close> and \<^verbatim>\<open>"\Ael\d*(p|s|d)"\<close>\<close>

definition re_el :: "string list \<Rightarrow> string \<Rightarrow> nat option" where
  "re_el sufs s =
     (if startswith s ''el'' then
        (let k = 2 + digits_len (drop 2 s)
         in case match_alt sufs (drop k s) of
              None \<Rightarrow> None
            | Some suf \<Rightarrow> Some (k + length suf))
      else None)"

definition re_el_long :: "string \<Rightarrow> nat option" where
  "re_el_long s = re_el [''po'', ''so'', ''do''] s"

definition re_el_short :: "string \<Rightarrow> nat option" where
  "re_el_short s = re_el [''p'', ''s'', ''d''] s"

text \<open>\<^verbatim>\<open>"\A(pp|pm)_fif\d*"\<close>\<close>

definition re_hyperfine :: "string \<Rightarrow> nat option" where
  "re_hyperfine s =
     (case match_alt [''pp'', ''pm''] s of
        None \<Rightarrow> None
      | Some m \<Rightarrow>
          (if startswith (drop 2 s) ''_fif'' then Some (6 + digits_len (drop 6 s))
           else None))"

subsection \<open>The driver loop\<close>

text \<open>
  The variables of the loop: \<open>high\<close>, \<open>low\<close>, \<open>names\<close>, \<open>high_lvls\<close>,
  \<open>low_lvls\<close>.
\<close>

type_synonym scan = "string \<times> string \<times> string list \<times> string list \<times> string list"

text \<open>
  What one tier does with the loop variables: its pattern does not match both halves
  (\<open>Skip\<close>: the next tier is tried), or it raises, or it ends in \<^verbatim>\<open>continue\<close> with new
  values of the variables.
\<close>

datatype outcome = Skip | Raise error | Continue scan

text \<open>
  Tiers 1 to 3 differ in their pattern and in the character replaced in the value
  (\<open>tr\<close>). \<^verbatim>\<open>.group()\<close> on a failed match would be an AttributeError.
\<close>

definition energy_tier ::
  "(string \<Rightarrow> nat option) \<Rightarrow> (string \<Rightarrow> string) \<Rightarrow> scan \<Rightarrow> outcome" where
  "energy_tier re tr st =
     (case st of (high, low, names, high_lvls, low_lvls) \<Rightarrow>
        (case (re high, re low) of
           (Some end_high, Some end_low) \<Rightarrow>
             (let e_high = take end_high high; e_low = take end_low low
              in case (re_name e_high, re_name e_low) of
                   (Some n_high, Some n_low) \<Rightarrow>
                     (if n_high \<noteq> n_low then Raise ValueError
                      else Continue
                        (l_removeprefixes high [e_high, ''_''],
                         l_removeprefixes low [e_low, ''_''],
                         names @ [n_high],
                         high_lvls @ [tr (l_removeprefixes e_high [n_high])],
                         low_lvls @ [tr (l_removeprefixes e_low [n_low])]))
                 | _ \<Rightarrow> Raise AttributeError)
         | _ \<Rightarrow> Skip))"

text \<open>
  Tier 4 (lines 306 to 315). After \<^verbatim>\<open>names.append("el")\<close> the source evaluates
  \<^verbatim>\<open>e_high._removeprefixes("el")\<close>, an attribute that \<^verbatim>\<open>str\<close> does not have.
\<close>

definition el_long_tier :: "scan \<Rightarrow> outcome" where
  "el_long_tier st =
     (case st of (high, low, names, high_lvls, low_lvls) \<Rightarrow>
        (case (re_el_long high, re_el_long low) of
           (Some end_high, Some end_low) \<Rightarrow> Raise AttributeError
         | _ \<Rightarrow> Skip))"

text \<open>Tier 5 (lines 317 to 326).\<close>

definition el_short_tier :: "scan \<Rightarrow> outcome" where
  "el_short_tier st =
     (case st of (high, low, names, high_lvls, low_lvls) \<Rightarrow>
        (case (re_el_short high, re_el_short low) of
           (Some end_high, Some end_low) \<Rightarrow>
             (let e_high = take end_high high; e_low = take end_low low
              in Continue
                   (l_removeprefixes high [e_high, ''_''],
                    l_removeprefixes low [e_low, ''_''],
                    names @ [''el''],
                    high_lvls @ [l_removeprefixes e_high [''el'']],
                    low_lvls @ [l_removeprefixes e_low [''el'']]))
         | _ \<Rightarrow> Skip))"

text \<open>Tier 6 (lines 328 to 337): the token is consumed and nothing is appended.\<close>

definition hyperfine_tier :: "scan \<Rightarrow> outcome" where
  "hyperfine_tier st =
     (case st of (high, low, names, high_lvls, low_lvls) \<Rightarrow>
        (case (re_hyperfine high, re_hyperfine low) of
           (Some end_high, Some end_low) \<Rightarrow>
             (let e_high = take end_high high; e_low = take end_low low
              in Continue
                   (l_removeprefixes high [e_high, ''_''],
                    l_removeprefixes low [e_low, ''_''],
                    names, high_lvls, low_lvls))
         | _ \<Rightarrow> Skip))"

text \<open>
  The last statement of the loop body (lines 339 and 340), reached when no tier ended in
  \<^verbatim>\<open>continue\<close>: it raises when exactly one half is empty, and otherwise the body ends
  with the variables as they were.
\<close>

definition exhaustion_check :: "scan \<Rightarrow> outcome" where
  "exhaustion_check st =
     (case st of (high, low, names, high_lvls, low_lvls) \<Rightarrow>
        (if high = [] \<and> low \<noteq> [] \<or> high \<noteq> [] \<and> low = [] then Raise RuntimeError
         else Continue st))"

text \<open>\<open>or_else\<close> chains the tiers in the order of the source.\<close>

definition or_else :: "outcome \<Rightarrow> outcome \<Rightarrow> outcome" where
  "or_else a b = (case a of Skip \<Rightarrow> b | _ \<Rightarrow> a)"

definition loop_body :: "scan \<Rightarrow> outcome" where
  "loop_body st =
     or_else (energy_tier re_fraction (replace_char CHR ''_'' CHR ''/'') st)
    (or_else (energy_tier re_decimal (replace_char CHR ''d'' CHR ''.'') st)
    (or_else (energy_tier re_integer (\<lambda>s. s) st)
    (or_else (el_long_tier st)
    (or_else (el_short_tier st)
    (or_else (hyperfine_tier st)
             (exhaustion_check st))))))"

text \<open>
  The \<^verbatim>\<open>while high != "" and low != ""\<close> loop. It need not terminate, so it is a partial
  function: \<open>None\<close> is a run that never leaves the loop.
\<close>

partial_function (option) driver :: "scan \<Rightarrow> (error + scan) option" where
  "driver st =
     (case st of (high, low, names, high_lvls, low_lvls) \<Rightarrow>
        if high \<noteq> [] \<and> low \<noteq> [] then
          (case loop_body st of
             Raise e \<Rightarrow> Some (Inl e)
           | Continue st' \<Rightarrow> driver st'
           | Skip \<Rightarrow> driver st)
        else Some (Inr st))"

subsection \<open>Python's \<^verbatim>\<open>int\<close>, \<^verbatim>\<open>str\<close> and \<^verbatim>\<open>split\<close>\<close>

text \<open>
  The white space of \<^verbatim>\<open>str.strip()\<close> and of \<^verbatim>\<open>int()\<close> among the code points below 256.
\<close>

definition is_space :: "char \<Rightarrow> bool" where
  "is_space c = (c \<in> set [CHR 0x09, CHR 0x0A, CHR 0x0B, CHR 0x0C, CHR 0x0D, CHR 0x1C,
                           CHR 0x1D, CHR 0x1E, CHR 0x1F, CHR 0x20, CHR 0x85, CHR 0xA0])"

definition strip :: "string \<Rightarrow> string" where
  "strip s = rev (dropWhile is_space (rev (dropWhile is_space s)))"

definition digit_val :: "char \<Rightarrow> nat" where
  "digit_val c = of_char c - 48"

definition int_of_digits :: "string \<Rightarrow> int" where
  "int_of_digits s = foldl (\<lambda>n c. 10 * n + int (digit_val c)) 0 s"

text \<open>Digits with single underscores between them, as \<^verbatim>\<open>int()\<close> accepts.\<close>

fun digits_ok :: "string \<Rightarrow> bool" where
  "digits_ok [] = False"
| "digits_ok [c] = is_digit c"
| "digits_ok (c # d # r) =
     (is_digit c \<and> (if d = CHR ''_'' then digits_ok r else digits_ok (d # r)))"

text \<open>
  \<^verbatim>\<open>int(s)\<close> in base 10: surrounding white space, an optional sign, then the digits;
  \<open>None\<close> is the ValueError. (The interpreter's limit on the number of digits of a
  conversion is not modelled.)
\<close>

definition py_int :: "string \<Rightarrow> int option" where
  "py_int s =
     (let t = strip s;
          neg = startswith t ''-'';
          body = (if startswith t ''-'' \<or> startswith t ''+'' then drop 1 t else t)
      in if digits_ok body
         then Some ((if neg then - 1 else 1) * int_of_digits (filter (\<lambda>c. c \<noteq> CHR ''_'') body))
         else None)"

text \<open>\<^verbatim>\<open>str(n)\<close> for an integer.\<close>

definition digit_char :: "nat \<Rightarrow> char" where
  "digit_char n = char_of (48 + n)"

function str_nat :: "nat \<Rightarrow> string" where
  "str_nat n = (if n < 10 then [digit_char n] else str_nat (n div 10) @ [digit_char (n mod 10)])"
  by pat_completeness auto
termination
  by (relation "measure (\<lambda>n. n)") auto

definition str_int :: "int \<Rightarrow> string" where
  "str_int i = (if i < 0 then ''-'' @ str_nat (nat (- i)) else str_nat (nat i))"

text \<open>\<^verbatim>\<open>s.split(sep)\<close> for a single character; \<open>cur\<close> is the part being read, reversed.\<close>

fun split_char :: "char \<Rightarrow> string \<Rightarrow> string \<Rightarrow> string list" where
  "split_char sep cur [] = [rev cur]"
| "split_char sep cur (c # r) =
     (if c = sep then rev cur # split_char sep [] r else split_char sep (c # cur) r)"

text \<open>\<^verbatim>\<open>a, b = xs\<close>: unpacking anything but two values is a ValueError.\<close>

definition unpack2 :: "string list \<Rightarrow> error + (string \<times> string)" where
  "unpack2 xs = (case xs of [a, b] \<Rightarrow> Inr (a, b) | _ \<Rightarrow> Inl ValueError)"

subsection \<open>Results with warnings\<close>

type_synonym 'a res = "string list \<times> (error + 'a)"

definition ok :: "'a \<Rightarrow> 'a res" where
  "ok x = ([], Inr x)"

definition raise :: "error \<Rightarrow> 'a res" where
  "raise e = ([], Inl e)"

definition lift :: "error + 'a \<Rightarrow> 'a res" where
  "lift r = ([], r)"

definition warn :: "string \<Rightarrow> unit res" where
  "warn msg = ([msg], Inr ())"

text \<open>Sequencing: an exception ends the computation and keeps the warnings so far.\<close>

definition bind_res :: "'a res \<Rightarrow> ('a \<Rightarrow> 'b res) \<Rightarrow> 'b res" where
  "bind_res m f =
     (case m of
        (w, Inl e) \<Rightarrow> (w, Inl e)
      | (w, Inr x) \<Rightarrow> (case f x of (w', r) \<Rightarrow> (w @ w', r)))"

definition to_int :: "string \<Rightarrow> int res" where
  "to_int s = (case py_int s of None \<Rightarrow> raise ValueError | Some n \<Rightarrow> ok n)"

subsection \<open>\<^verbatim>\<open>_transition\<close> and \<^verbatim>\<open>_eltransition\<close>\<close>

definition energy_to_latex :: "(string \<times> string) list" where
  "energy_to_latex =
     [(''j'', ''J''), (''v'', backslash # ''nu''), (''f'', ''f''), (''n'', ''n''),
      (''ka'', ''k_a''), (''kc'', ''k_c'')]"

text \<open>\<^verbatim>\<open>re.match("\A\d*[/.]\d*\Z", s) is not None\<close>\<close>

definition numeric_re :: "string \<Rightarrow> bool" where
  "numeric_re s =
     (case dropWhile is_digit s of
        [] \<Rightarrow> False
      | c # r \<Rightarrow> (c = CHR ''/'' \<or> c = CHR ''.'') \<and> dropWhile is_digit r = [])"

text \<open>
  What a classifier returns first: one string, or a tuple of two strings. The flag is the
  second component of the result.
\<close>

datatype descr = Constant string | Transition string string

definition unsupported_msg :: "string \<Rightarrow> string" where
  "unsupported_msg b =
     ''x.'' @ b @ '' floats has not been implemented. Ignoring the floating part.''"

text \<open>
  Lines 431 to 437, and again lines 438 to 444 for the lower level: numerator and
  denominator of a decimal value with integer part \<open>a\<close> and fractional part \<open>b\<close>.
\<close>

definition half_level :: "string \<Rightarrow> string \<Rightarrow> (int \<times> int) res" where
  "half_level a b =
     (if b = ''0'' then bind_res (to_int a) (\<lambda>n. ok (2 * n, 1))
      else if b = ''5'' then bind_res (to_int a) (\<lambda>n. ok (2 * n + 1, 2))
      else bind_res (warn (unsupported_msg b)) (\<lambda>_. bind_res (to_int a) (\<lambda>n. ok (n, 1))))"

text \<open>Lines 422 to 426: both levels are read as fractions.\<close>

definition fraction_levels :: "string \<Rightarrow> string \<Rightarrow> ((int \<times> int) \<times> (int \<times> int)) res" where
  "fraction_levels high_lvl low_lvl =
     bind_res (lift (unpack2 (split_char CHR ''/'' [] high_lvl))) (\<lambda>(a_high, b_high).
     bind_res (lift (unpack2 (split_char CHR ''/'' [] low_lvl))) (\<lambda>(a_low, b_low).
     bind_res (to_int a_high) (\<lambda>n_high.
     bind_res (to_int b_high) (\<lambda>d_high.
     bind_res (to_int a_low) (\<lambda>n_low.
     bind_res (to_int b_low) (\<lambda>d_low.
       ok ((n_high, d_high), (n_low, d_low))))))))"

text \<open>Lines 428 to 444: both levels are read as decimals.\<close>

definition decimal_levels :: "string \<Rightarrow> string \<Rightarrow> ((int \<times> int) \<times> (int \<times> int)) res" where
  "decimal_levels high_lvl low_lvl =
     bind_res (lift (unpack2 (split_char CHR ''.'' [] high_lvl))) (\<lambda>(a_high, b_high).
     bind_res (lift (unpack2 (split_char CHR ''.'' [] low_lvl))) (\<lambda>(a_low, b_low).
     bind_res (half_level a_high b_high) (\<lambda>nd_high.
     bind_res (half_level a_low b_low) (\<lambda>nd_low.
       ok (nd_high, nd_low)))))"

definition frac :: "int \<Rightarrow> int \<Rightarrow> string" where
  "frac n d = backslash # ''frac{'' @ str_int n @ ''}{'' @ str_int d @ ''}''"

text \<open>
  Lines 446 to 449, and again lines 450 to 453: \<^verbatim>\<open>n % d\<close> raises when \<open>d\<close> is zero.
\<close>

definition render :: "int \<Rightarrow> int \<Rightarrow> string res" where
  "render n d =
     (if d = 0 then raise ZeroDivisionError
      else if n mod d = 0 then ok (str_int (n div d))
      else ok (frac n d))"

text \<open>\<^verbatim>\<open>"${}={}$".format(name_latex, lvl_latex)\<close>\<close>

definition fmt_level :: "string \<Rightarrow> string \<Rightarrow> string" where
  "fmt_level name_latex lvl_latex = ''$'' @ name_latex @ ''='' @ lvl_latex @ ''$''"

text \<open>Lines 415 to 418: the typeset name, or the name itself when the table lacks it.\<close>

definition name_to_latex :: "string \<Rightarrow> string" where
  "name_to_latex name = (case map_of energy_to_latex name of Some t \<Rightarrow> t | None \<Rightarrow> name)"

text \<open>Lines 458 to 463: one string when the two renderings are equal, else a pair.\<close>

definition constant_or_pair :: "string \<Rightarrow> string \<Rightarrow> string \<Rightarrow> descr \<times> bool" where
  "constant_or_pair name_latex high_lvl_latex low_lvl_latex =
     (if high_lvl_latex = low_lvl_latex
      then (Constant (fmt_level name_latex low_lvl_latex), False)
      else (Transition (fmt_level name_latex high_lvl_latex)
                       (fmt_level name_latex low_lvl_latex), True))"

definition l_transition :: "string \<Rightarrow> string \<Rightarrow> string \<Rightarrow> (descr \<times> bool) res" where
  "l_transition name high_lvl low_lvl =
     (let name_latex = name_to_latex name
      in bind_res
           (if numeric_re high_lvl then
              bind_res
                (if CHR ''/'' \<in> set high_lvl then fraction_levels high_lvl low_lvl
                 else decimal_levels high_lvl low_lvl)
                (\<lambda>((n_high, d_high), (n_low, d_low)).
                   bind_res (render n_high d_high) (\<lambda>high_lvl_latex.
                   bind_res (render n_low d_low) (\<lambda>low_lvl_latex.
                     ok (high_lvl_latex, low_lvl_latex))))
            else ok (high_lvl, low_lvl))
           (\<lambda>(high_lvl_latex, low_lvl_latex).
              ok (constant_or_pair name_latex high_lvl_latex low_lvl_latex)))"

definition l_eltransition :: "string \<Rightarrow> string \<Rightarrow> descr \<times> bool" where
  "l_eltransition h l =
     (if h = l then (Constant (''$'' @ h @ ''$''), False)
      else (Transition (''$'' @ h @ ''$'') (''$'' @ l @ ''$''), True))"

subsection \<open>\<^verbatim>\<open>_sort_transitions\<close> and \<^verbatim>\<open>transition_to_latex\<close>\<close>

text \<open>
  \<^verbatim>\<open>descr[i]\<close> and \<^verbatim>\<open>descr + " "\<close>: indexing takes a component of a tuple and a
  character of a string; a tuple cannot be added to a string.
\<close>

definition descr_index :: "descr \<Rightarrow> nat \<Rightarrow> string res" where
  "descr_index d i =
     (case d of
        Transition a b \<Rightarrow> (if i = 0 then ok a else if i = 1 then ok b else raise IndexError)
      | Constant s \<Rightarrow> (if i < length s then ok [s ! i] else raise IndexError))"

definition descr_plus :: "descr \<Rightarrow> string \<Rightarrow> string res" where
  "descr_plus d t = (case d of Constant s \<Rightarrow> ok (s @ t) | Transition a b \<Rightarrow> raise TypeError)"

text \<open>The \<^verbatim>\<open>for\<close> loop of lines 518 to 527 over the zipped lists.\<close>

text \<open>Lines 519 to 522: the classifier for one label.\<close>

definition classify_label :: "string \<Rightarrow> string \<Rightarrow> string \<Rightarrow> (descr \<times> bool) res" where
  "classify_label name h l =
     (if name = ''el'' then ok (l_eltransition h l) else l_transition name h l)"

fun sort_loop ::
  "(string \<times> string \<times> string) list \<Rightarrow> string \<times> string \<times> string \<Rightarrow>
     (string \<times> string \<times> string) res" where
  "sort_loop [] acc = ok acc"
| "sort_loop ((name, h, l) # rest) (descr_0, descr_1a, descr_1b) =
     bind_res (classify_label name h l)
       (\<lambda>(descr, istrans).
          if istrans then
            bind_res (descr_index descr 0) (\<lambda>d0.
            bind_res (descr_index descr 1) (\<lambda>d1.
              sort_loop rest (descr_0, descr_1a @ d0 @ '', '', descr_1b @ d1 @ '', '')))
          else
            bind_res (descr_plus descr '' '') (\<lambda>d.
              sort_loop rest (descr_0 @ d, descr_1a, descr_1b)))"

text \<open>\<^verbatim>\<open>s[:-2]\<close>\<close>

definition drop_last2 :: "string \<Rightarrow> string" where
  "drop_last2 s = take (length s - 2) s"

definition l_sort_transitions :: "string list \<Rightarrow> string list \<Rightarrow> string list \<Rightarrow> string res" where
  "l_sort_transitions names high_lvls low_lvls =
     (if length high_lvls \<noteq> length names \<or> length low_lvls \<noteq> length names
      then raise ValueError
      else if length names = 0 then ok []
      else bind_res (sort_loop (zip names (zip high_lvls low_lvls)) ([], [], []))
             (\<lambda>(descr_0, descr_1a, descr_1b).
                ok (strip descr_0 @ '' ('' @ drop_last2 descr_1a @ '' $'' @ [backslash] @ ''to$ ''
                    @ drop_last2 descr_1b @ '')'')))"

text \<open>
  \<^verbatim>\<open>transition_to_latex\<close>: \<open>None\<close> when the loop never ends, otherwise the warnings and
  the string or the exception.
\<close>

definition transition_to_latex :: "string \<Rightarrow> string res option" where
  "transition_to_latex t =
     (if count_dunder t \<noteq> 1 then Some (raise ValueError)
      else case unpack2 (split_dunder [] t) of
             Inl e \<Rightarrow> Some (raise e)
           | Inr (high, low) \<Rightarrow>
               (case driver (high, low, [], [], []) of
                  None \<Rightarrow> None
                | Some (Inl e) \<Rightarrow> Some (raise e)
                | Some (Inr (high', low', names, high_lvls, low_lvls)) \<Rightarrow>
                    Some (l_sort_transitions names high_lvls low_lvls)))"

subsection \<open>Molecule names and \<^verbatim>\<open>filter_molecules\<close>\<close>

text \<open>The dictionaries, as association lists in insertion order.\<close>

definition molecules_to_latex :: "(string \<times> string) list" where
  "molecules_to_latex =
     [(''h'', ''H''), (''h2'', ''H_2''), (''hd'', ''HD''), (''co'', ''CO''),
      (''13c_o'', ''^{13}CO''), (''c_18o'', ''C^{18}O''), (''13c_18o'', ''^{13}C^{18}O''),
      (''c'', ''C''), (''n'', ''N''), (''o'', ''O''), (''s'', ''S''), (''si'', ''Si''),
      (''cs'', ''CS''), (''cn'', ''CN''), (''hcn'', ''HCN''), (''hnc'', ''HNC''),
      (''oh'', ''OH''), (''h2o'', ''H_2O''), (''h2_18o'', ''H_2^{18}O''), (''c2h'', ''C_2H''),
      (''c_c3h2'', ''c-C_3H_2''), (''so'', ''SO''), (''cp'', ''C^+''), (''sp'', ''S^+''),
      (''hcop'', ''HCO^+''), (''chp'', ''CH^+''), (''ohp'', ''OH^+''), (''shp'', ''SH^+'')]"

definition molecules_aliases :: "(string \<times> string) list" where
  "molecules_aliases =
     [(''13co'', ''13c_o''), (''c18o'', ''c_18o''), (''13c18o'', ''13c_18o''),
      (''cc3h2'', ''c_c3h2'')]"

text \<open>\<^verbatim>\<open>str.lower()\<close> on the code points below 256.\<close>

definition lower_char :: "char \<Rightarrow> char" where
  "lower_char c =
     (let n = (of_char c :: nat)
      in if (65 \<le> n \<and> n \<le> 90) \<or> (192 \<le> n \<and> n \<le> 222 \<and> n \<noteq> 215)
         then char_of (n + 32) else c)"

definition lower :: "string \<Rightarrow> string" where
  "lower s = map lower_char s"

text \<open>\<^verbatim>\<open>s.split(sep, maxsplit=1)\<close> for a single character.\<close>

definition split_first :: "char \<Rightarrow> string \<Rightarrow> string list" where
  "split_first sep s =
     (if sep \<in> set s
      then [takeWhile (\<lambda>c. c \<noteq> sep) s, drop 1 (dropWhile (\<lambda>c. c \<noteq> sep) s)]
      else [s])"

text \<open>
  \<^verbatim>\<open>idxmax = lambda ls: max(range(len(ls)), key=ls.__getitem__)\<close>: the first index of a
  greatest element; \<^verbatim>\<open>max\<close> of an empty range is a ValueError.
\<close>

definition idxmax :: "nat list \<Rightarrow> error + nat" where
  "idxmax ls =
     (if ls = [] then Inl ValueError
      else Inr (fold (\<lambda>i best. if ls ! best < ls ! i then i else best) [1..<length ls] 0))"

text \<open>The tuple that \<^verbatim>\<open>molecule_and_transition\<close> returns is a list of its components.\<close>

definition molecule_and_transition :: "string \<Rightarrow> error + string list" where
  "molecule_and_transition line_name0 =
     (if CHR ''_'' \<notin> set line_name0 then Inl ValueError
      else
        (let line_name = strip (lower line_name0);
             prefixes = filter (startswith line_name) (map fst molecules_to_latex)
         in if length prefixes = 0 then Inr (split_first CHR ''_'' line_name)
            else
              (case idxmax (map length prefixes) of
                 Inl e \<Rightarrow> Inl e
               | Inr i \<Rightarrow>
                   (let prefix = prefixes ! i;
                        suffix = drop (length prefix + 1) line_name
                    in Inr [prefix, suffix]))))"

definition molecule :: "string \<Rightarrow> error + string" where
  "molecule line_name =
     (case molecule_and_transition line_name of
        Inl e \<Rightarrow> Inl e
      | Inr t \<Rightarrow> (case t of [] \<Rightarrow> Inl IndexError | x # _ \<Rightarrow> Inr x))"

text \<open>
  Lists are objects: a heap holds the contents of every list, and a list is passed as its
  address, an index into the heap. A new list is allocated at the end.
\<close>

type_synonym heap = "string list list"

datatype mols_arg = MolsNone | MolsStr string | MolsList nat

definition alloc :: "heap \<Rightarrow> string list \<Rightarrow> heap \<times> nat" where
  "alloc h xs = (h @ [xs], length h)"

text \<open>
  Lines 202 and 203: \<^verbatim>\<open>for i, mol in enumerate(mols): mols[i] = mol.strip().lower()\<close>,
  on the list at address \<open>a\<close>.
\<close>

definition normalise_in_place :: "heap \<Rightarrow> nat \<Rightarrow> heap" where
  "normalise_in_place h a =
     fold (\<lambda>i h'. h'[a := (h' ! a)[i := lower (strip (h' ! a ! i))]]) [0..<length (h ! a)] h"

text \<open>\<^verbatim>\<open>[molecule(name) for name in names]\<close>: the first exception ends it.\<close>

fun molecules_of :: "string list \<Rightarrow> error + string list" where
  "molecules_of [] = Inr []"
| "molecules_of (name # rest) =
     (case molecule name of
        Inl e \<Rightarrow> Inl e
      | Inr m \<Rightarrow> (case molecules_of rest of Inl e \<Rightarrow> Inl e | Inr ms \<Rightarrow> Inr (m # ms)))"

text \<open>
  Lines 205 to 210, with \<open>mols\<close> the address of the list of molecules: the list of
  line 205, \<open>lines_mols\<close> and \<open>indices\<close> are local lists that never leave the
  function; the list of line 210 is new and is returned.
\<close>

definition select_lines :: "heap \<Rightarrow> nat \<Rightarrow> nat \<Rightarrow> heap \<times> (error + nat)" where
  "select_lines h names mols =
     (let mols' = map (\<lambda>mol. case map_of molecules_aliases mol of
                                 Some al \<Rightarrow> al | None \<Rightarrow> mol) (h ! mols)
      in case molecules_of (h ! names) of
           Inl e \<Rightarrow> (h, Inl e)
         | Inr lines_mols \<Rightarrow>
             (let indices = filter (\<lambda>i. lines_mols ! i \<in> set mols') [0..<length lines_mols]
              in case alloc h (map (\<lambda>i. h ! names ! i) indices) of
                   (h', out) \<Rightarrow> (h', Inr out)))"

text \<open>
  \<^verbatim>\<open>filter_molecules(names, mols)\<close> on a heap: \<open>names\<close> is the address of a list, and
  so is a list passed as \<open>mols\<close>. The result is the heap after the call and the address of
  the returned list, or the exception. A string passed as \<open>mols\<close> is wrapped in a new
  list (line 201).
\<close>

definition filter_molecules :: "heap \<Rightarrow> nat \<Rightarrow> mols_arg \<Rightarrow> heap \<times> (error + nat)" where
  "filter_molecules h names mols =
     (case mols of
        MolsNone \<Rightarrow> (h, Inr names)
      | MolsStr m \<Rightarrow>
          (case alloc h [m] of (h1, a) \<Rightarrow> select_lines (normalise_in_place h1 a) names a)
      | MolsList a \<Rightarrow> select_lines (normalise_in_place h a) names a)"

subsection \<open>Vocabulary of the statements\<close>

text \<open>A string of decimal digits, possibly empty.\<close>

definition digits :: "string \<Rightarrow> bool" where
  "digits s = list_all is_digit s"

text \<open>
  The rendering of a fraction \<open>a/b\<close> in the words of the specification: the quotient
  as a plain integer when \<open>b\<close> divides \<open>a\<close>, otherwise the unreduced typeset
  fraction.
\<close>

definition fraction_latex :: "string \<Rightarrow> string \<Rightarrow> string" where
  "fraction_latex a b =
     (if int_of_digits a mod int_of_digits b = 0
      then str_int (int_of_digits a div int_of_digits b)
      else frac (int_of_digits a) (int_of_digits b))"

text \<open>
  \<^verbatim>\<open>sep.join(xs)\<close>, and the strings of a list of classified labels: the constants, the
  upper sides of the transitions and their lower sides, each in the order of the list.
\<close>

fun join :: "string \<Rightarrow> string list \<Rightarrow> string" where
  "join sep [] = []"
| "join sep [x] = x"
| "join sep (x # y # r) = x @ sep @ join sep (y # r)"

definition constants_of :: "(descr \<times> bool) list \<Rightarrow> string list" where
  "constants_of rs = concat (map (\<lambda>(d, t). case d of Constant s \<Rightarrow> [s] | Transition a b \<Rightarrow> []) rs)"

definition highs_of :: "(descr \<times> bool) list \<Rightarrow> string list" where
  "highs_of rs = concat (map (\<lambda>(d, t). case d of Constant s \<Rightarrow> [] | Transition a b \<Rightarrow> [a]) rs)"

definition lows_of :: "(descr \<times> bool) list \<Rightarrow> string list" where
  "lows_of rs = concat (map (\<lambda>(d, t). case d of Constant s \<Rightarrow> [] | Transition a b \<Rightarrow> [b]) rs)"

text \<open>
  The labels classify to \<open>rs\<close>, one after the other, without raising.
\<close>

definition classified :: "(string \<times> string \<times> string) list \<Rightarrow> (descr \<times> bool) list \<Rightarrow> bool" where
  "classified xs rs =
     list_all2 (\<lambda>(name, h, l) r. snd (classify_label name h l) = Inr r) xs rs"

text \<open>
  What lines 431 to 437 and 446 to 449 together make of a decimal with integer part
  \<open>a\<close> and fractional part \<open>b\<close>, and the warnings they emit.
\<close>

definition decimal_latex :: "string \<Rightarrow> string \<Rightarrow> string" where
  "decimal_latex a b =
     (if b = ''0'' then str_int (2 * int_of_digits a)
      else if b = ''5'' then frac (2 * int_of_digits a + 1) 2
      else str_int (int_of_digits a))"

definition decimal_warnings :: "string \<Rightarrow> string list" where
  "decimal_warnings b = (if b = ''0'' \<or> b = ''5'' then [] else [unsupported_msg b])"

section \<open>Properties\<close>

subsection \<open>The driver loop, unfolded\<close>

lemma driver_unfold [code]:
  "driver (high, low, names, high_lvls, low_lvls) =
     (if high \<noteq> [] \<and> low \<noteq> [] then
        (case loop_body (high, low, names, high_lvls, low_lvls) of
           Raise e \<Rightarrow> Some (Inl e)
         | Continue st' \<Rightarrow> driver st'
         | Skip \<Rightarrow> driver (high, low, names, high_lvls, low_lvls))
      else Some (Inr (high, low, names, high_lvls, low_lvls)))"
  by (subst driver.simps) simp

text \<open>
  A pass through the loop body that changes nothing, with both halves non-empty, is
  repeated for ever: no result is ever returned from such a state.
\<close>

lemma driver_stuck:
  assumes "loop_body st = Continue st" "fst st \<noteq> []" "fst (snd st) \<noteq> []"
  shows "driver st = None"
proof -
  have main: "\<forall>s r. driver s = Some r \<longrightarrow>
      \<not> (loop_body s = Continue s \<and> fst s \<noteq> [] \<and> fst (snd s) \<noteq> [])"
  proof (induction rule: driver.fixp_induct)
    case 1
    show ?case by (rule option_admissible)
  next
    case 2
    show ?case by simp
  next
    case (3 f)
    show ?case
    proof (intro allI impI notI)
      fix s r
      assume eq: "(case s of (high, low, names, high_lvls, low_lvls) \<Rightarrow>
                    if high \<noteq> [] \<and> low \<noteq> [] then
                      (case loop_body s of
                         Skip \<Rightarrow> f s | Raise e \<Rightarrow> Some (Inl e) | Continue st' \<Rightarrow> f st')
                    else Some (Inr s)) = Some r"
        and st: "loop_body s = Continue s \<and> fst s \<noteq> [] \<and> fst (snd s) \<noteq> []"
      from st eq have "f s = Some r" by (cases s) auto
      with 3 st show False by blast
    qed
  qed
  show ?thesis
  proof (cases "driver st")
    case None
    then show ?thesis .
  next
    case (Some r)
    with main assms show ?thesis by blast
  qed
qed

text \<open>
  The check of lines 339 and 340 sits inside the loop, where both halves are non-empty:
  it never raises there.
\<close>

lemma exhaustion_check_dead:
  "high \<noteq> [] \<Longrightarrow> low \<noteq> [] \<Longrightarrow>
   exhaustion_check (high, low, names, high_lvls, low_lvls) =
     Continue (high, low, names, high_lvls, low_lvls)"
  by (simp add: exhaustion_check_def)

subsection \<open>Digit strings and the numeric path of \<^verbatim>\<open>_transition\<close>\<close>

lemma is_digit_not_sep: "is_digit c \<Longrightarrow> c \<noteq> CHR ''/'' \<and> c \<noteq> CHR ''.'' \<and> c \<noteq> CHR ''_'' \<and> c \<noteq> CHR ''-'' \<and> c \<noteq> CHR ''+'' \<and> \<not> is_space c"
  by (auto simp: is_digit_def is_space_def)

lemma digits_no_sep: "digits s \<Longrightarrow> CHR ''/'' \<notin> set s \<and> CHR ''.'' \<notin> set s \<and> CHR ''_'' \<notin> set s"
  using is_digit_not_sep by (auto simp: digits_def list_all_iff)

lemma dropWhile_digits: "digits a \<Longrightarrow> \<not> is_digit c \<Longrightarrow> dropWhile is_digit (a @ c # r) = c # r"
  by (induction a) (auto simp: digits_def)

lemma dropWhile_digits_all: "digits a \<Longrightarrow> dropWhile is_digit a = []"
  by (induction a) (auto simp: digits_def)

lemma not_digit_sep: "\<not> is_digit CHR ''/''" "\<not> is_digit CHR ''.''"
  by (simp_all add: is_digit_def)

lemma numeric_re_sep:
  "digits a \<Longrightarrow> digits b \<Longrightarrow> c = CHR ''/'' \<or> c = CHR ''.'' \<Longrightarrow> numeric_re (a @ c # b)"
proof -
  assume a: "digits a" and b: "digits b" and c: "c = CHR ''/'' \<or> c = CHR ''.''"
  from c have nd: "\<not> is_digit c" using not_digit_sep by auto
  have "dropWhile is_digit (a @ c # b) = c # b" using a nd by (rule dropWhile_digits)
  moreover have "dropWhile is_digit b = []" using b by (rule dropWhile_digits_all)
  ultimately show ?thesis using c by (simp add: numeric_re_def)
qed

lemma split_char_none: "sep \<notin> set b \<Longrightarrow> split_char sep cur b = [rev cur @ b]"
  by (induction b arbitrary: cur) auto

lemma split_char_one:
  "sep \<notin> set a \<Longrightarrow> sep \<notin> set b \<Longrightarrow> split_char sep cur (a @ sep # b) = [rev cur @ a, b]"
  by (induction a arbitrary: cur) (auto simp: split_char_none)

lemma strip_digits: "digits a \<Longrightarrow> strip a = a"
proof (cases a rule: rev_cases)
  case Nil then show ?thesis by (simp add: strip_def)
next
  case (snoc ys y)
  assume d: "digits a"
  with snoc have y: "\<not> is_space y" using is_digit_not_sep by (auto simp: digits_def)
  have h: "dropWhile is_space a = a"
  proof (cases a)
    case Nil then show ?thesis by simp
  next
    case (Cons x xs)
    with d have "\<not> is_space x" using is_digit_not_sep by (auto simp: digits_def)
    with Cons show ?thesis by simp
  qed
  show ?thesis using y snoc h by (simp add: strip_def)
qed

lemma digits_ok_digits: "digits a \<Longrightarrow> a \<noteq> [] \<Longrightarrow> digits_ok a"
proof (induction a rule: digits_ok.induct)
  case 1 then show ?case by simp
next
  case (2 c) then show ?case by (simp add: digits_def)
next
  case (3 c d r)
  then show ?case using is_digit_not_sep[of d] by (auto simp: digits_def)
qed

lemma filter_underscore_digits: "digits a \<Longrightarrow> filter (\<lambda>c. c \<noteq> CHR ''_'') a = a"
  using digits_no_sep[of a] by (auto simp: filter_id_conv)

lemma py_int_digits: "digits a \<Longrightarrow> a \<noteq> [] \<Longrightarrow> py_int a = Some (int_of_digits a)"
proof -
  assume d: "digits a" and ne: "a \<noteq> []"
  then obtain x xs where a: "a = x # xs" by (cases a) auto
  with d have "x \<noteq> CHR ''-''" "x \<noteq> CHR ''+''" using is_digit_not_sep[of x] by (auto simp: digits_def)
  then have "\<not> startswith a ''-''" "\<not> startswith a ''+''" using a by (auto simp: startswith_def)
  then show ?thesis using d ne
    by (simp add: py_int_def strip_digits digits_ok_digits filter_underscore_digits Let_def)
qed

lemma py_int_empty: "py_int [] = None"
  by (simp add: py_int_def strip_def startswith_def)

lemma to_int_digits: "digits a \<Longrightarrow> a \<noteq> [] \<Longrightarrow> to_int a = ([], Inr (int_of_digits a))"
  by (simp add: to_int_def py_int_digits ok_def)


lemma bind_ok: "bind_res ([], Inr x) f = f x"
  by (simp add: bind_res_def split: prod.splits)

lemma bind_ok': "bind_res (ok x) f = f x"
  by (simp add: ok_def bind_ok)

lemma bind_warned: "bind_res (w, Inr x) f = (w @ fst (f x), snd (f x))"
  by (simp add: bind_res_def split: prod.splits)

lemma bind_raised: "bind_res (w, Inl e) f = (w, Inl e)"
  by (simp add: bind_res_def)

lemma fraction_levels_wf:
  assumes "digits a" "a \<noteq> []" "digits b" "b \<noteq> []" "digits c" "c \<noteq> []" "digits e" "e \<noteq> []"
  shows "fraction_levels (a @ CHR ''/'' # b) (c @ CHR ''/'' # e) =
           ([], Inr ((int_of_digits a, int_of_digits b), (int_of_digits c, int_of_digits e)))"
proof -
  have s1: "split_char CHR ''/'' [] (a @ CHR ''/'' # b) = [a, b]"
    using assms digits_no_sep[of a] digits_no_sep[of b] by (simp add: split_char_one)
  have s2: "split_char CHR ''/'' [] (c @ CHR ''/'' # e) = [c, e]"
    using assms digits_no_sep[of c] digits_no_sep[of e] by (simp add: split_char_one)
  show ?thesis
    using assms
    by (simp add: fraction_levels_def s1 s2 unpack2_def lift_def bind_ok to_int_digits ok_def)
qed

lemma half_level_wf:
  assumes "digits a" "a \<noteq> []"
  shows "half_level a b =
     (decimal_warnings b,
      Inr (if b = ''0'' then (2 * int_of_digits a, 1)
           else if b = ''5'' then (2 * int_of_digits a + 1, 2)
           else (int_of_digits a, 1)))"
  using assms
  by (simp add: half_level_def decimal_warnings_def to_int_digits bind_ok ok_def warn_def bind_warned)

lemma render_half:
  "render (if b = ''0'' then (2 * n) else if b = ''5'' then (2 * n + 1) else n)
          (if b = ''0'' then 1 else if b = ''5'' then 2 else 1) =
   ([], Inr (if b = ''0'' then str_int (2 * n) else if b = ''5'' then frac (2 * n + 1) 2 else str_int n))"
  by (simp add: render_def ok_def raise_def)

lemma decimal_levels_wf:
  assumes "digits a" "a \<noteq> []" "digits b" "digits c" "c \<noteq> []" "digits e"
  shows "decimal_levels (a @ CHR ''.'' # b) (c @ CHR ''.'' # e) =
     (decimal_warnings b @ decimal_warnings e,
      Inr ((if b = ''0'' then (2 * int_of_digits a, 1)
            else if b = ''5'' then (2 * int_of_digits a + 1, 2)
            else (int_of_digits a, 1)),
           (if e = ''0'' then (2 * int_of_digits c, 1)
            else if e = ''5'' then (2 * int_of_digits c + 1, 2)
            else (int_of_digits c, 1))))"
proof -
  have s1: "split_char CHR ''.'' [] (a @ CHR ''.'' # b) = [a, b]"
    using assms digits_no_sep[of a] digits_no_sep[of b] by (simp add: split_char_one)
  have s2: "split_char CHR ''.'' [] (c @ CHR ''.'' # e) = [c, e]"
    using assms digits_no_sep[of c] digits_no_sep[of e] by (simp add: split_char_one)
  show ?thesis
    using assms
    by (simp add: decimal_levels_def s1 s2 unpack2_def lift_def bind_ok half_level_wf
        bind_warned ok_def)
qed

lemma l_transition_decimal:
  assumes "digits a" "a \<noteq> []" "digits b" "digits c" "c \<noteq> []" "digits e"
  shows "l_transition name (a @ CHR ''.'' # b) (c @ CHR ''.'' # e) =
     (decimal_warnings b @ decimal_warnings e,
      Inr (constant_or_pair (name_to_latex name) (decimal_latex a b) (decimal_latex c e)))"
proof -
  have n: "numeric_re (a @ CHR ''.'' # b)" using assms by (simp add: numeric_re_sep)
  have ns: "CHR ''/'' \<notin> set (a @ CHR ''.'' # b)"
    using digits_no_sep[of a] digits_no_sep[of b] assms by simp
  show ?thesis
    unfolding l_transition_def Let_def
    using n ns assms
    by (simp add: decimal_levels_wf bind_warned bind_ok' decimal_latex_def render_def ok_def
        raise_def bind_ok)
qed

lemma l_transition_fraction:
  assumes "digits a" "a \<noteq> []" "digits b" "b \<noteq> []" "digits c" "c \<noteq> []" "digits e" "e \<noteq> []"
    and "int_of_digits b \<noteq> 0" "int_of_digits e \<noteq> 0"
  shows "l_transition name (a @ CHR ''/'' # b) (c @ CHR ''/'' # e) =
     ([], Inr (constant_or_pair (name_to_latex name) (fraction_latex a b) (fraction_latex c e)))"
proof -
  have n: "numeric_re (a @ CHR ''/'' # b)" using assms by (simp add: numeric_re_sep)
  show ?thesis
    unfolding l_transition_def Let_def
    using n assms
    by (simp add: fraction_levels_wf bind_ok bind_ok' fraction_latex_def render_def ok_def raise_def)
qed

lemma bind_InrD:
  "bind_res m f = (w, Inr y) \<Longrightarrow> \<exists>w1 x w2. m = (w1, Inr x) \<and> f x = (w2, Inr y) \<and> w = w1 @ w2"
  by (cases m) (auto simp: bind_res_def split: sum.splits prod.splits)

lemma ok_InrD: "ok x = (w, Inr y) \<Longrightarrow> x = y \<and> w = []"
  by (simp add: ok_def)

lemma fraction_levels_same:
  assumes "fraction_levels v v = (w, Inr (x, y))" shows "x = y"
proof -
  from assms obtain w1 p w2 where
    p: "lift (unpack2 (split_char CHR ''/'' [] v)) = (w1, Inr p)" and
    r: "(case p of (a_high, b_high) \<Rightarrow>
     bind_res (lift (unpack2 (split_char CHR ''/'' [] v))) (\<lambda>(a_low, b_low).
     bind_res (to_int a_high) (\<lambda>n_high.
     bind_res (to_int b_high) (\<lambda>d_high.
     bind_res (to_int a_low) (\<lambda>n_low.
     bind_res (to_int b_low) (\<lambda>d_low.
       ok ((n_high, d_high), (n_low, d_low)))))))) = (w2, Inr (x, y))"
    unfolding fraction_levels_def by (blast dest: bind_InrD)
  obtain a b where ab: "p = (a, b)" by (cases p)
  from p have p': "lift (unpack2 (split_char CHR ''/'' [] v)) = ([], Inr (a, b))"
    by (simp add: lift_def ab)
  from r obtain n d where n: "to_int a = ([], Inr n)" and d: "to_int b = ([], Inr d)"
    and xy: "x = (n, d)" "y = (n, d)"
    unfolding ab p'
    by (auto simp: bind_ok to_int_def ok_def raise_def bind_raised split: option.splits)
  then show ?thesis by simp
qed

lemma decimal_levels_same:
  assumes "decimal_levels v v = (w, Inr (x, y))" shows "x = y"
proof -
  from assms obtain w1 p w2 where
    p: "lift (unpack2 (split_char CHR ''.'' [] v)) = (w1, Inr p)" and
    r: "(case p of (a_high, b_high) \<Rightarrow>
     bind_res (lift (unpack2 (split_char CHR ''.'' [] v))) (\<lambda>(a_low, b_low).
     bind_res (half_level a_high b_high) (\<lambda>nd_high.
     bind_res (half_level a_low b_low) (\<lambda>nd_low.
       ok (nd_high, nd_low))))) = (w2, Inr (x, y))"
    unfolding decimal_levels_def by (blast dest: bind_InrD)
  obtain a b where ab: "p = (a, b)" by (cases p)
  from p have p': "lift (unpack2 (split_char CHR ''.'' [] v)) = ([], Inr (a, b))"
    by (simp add: lift_def ab)
  from r have "bind_res (half_level a b) (\<lambda>nd_high.
     bind_res (half_level a b) (\<lambda>nd_low. ok (nd_high, nd_low))) = (w2, Inr (x, y))"
    unfolding ab p' by (simp add: bind_ok)
  then obtain wa x' wb where h1: "half_level a b = (wa, Inr x')"
    and r2: "bind_res (half_level a b) (\<lambda>nd_low. ok (x', nd_low)) = (wb, Inr (x, y))"
    by (blast dest: bind_InrD)
  from r2 show ?thesis unfolding h1 by (auto simp: bind_warned ok_def)
qed

lemma render_same_Inr:
  "bind_res (render n d) (\<lambda>h. bind_res (render n d) (\<lambda>l. ok (h, l))) = (w, Inr (hi, lo)) \<Longrightarrow> hi = lo"
  by (auto simp: render_def ok_def raise_def bind_ok bind_raised split: if_splits)

lemma l_transition_same_never_pair:
  assumes "l_transition name v v = (w, Inr r)"
  shows "\<exists>s. r = (Constant s, False)"
proof -
  let ?X = "(if numeric_re v then
              bind_res
                (if CHR ''/'' \<in> set v then fraction_levels v v else decimal_levels v v)
                (\<lambda>((n_high, d_high), (n_low, d_low)).
                   bind_res (render n_high d_high) (\<lambda>high_lvl_latex.
                   bind_res (render n_low d_low) (\<lambda>low_lvl_latex.
                     ok (high_lvl_latex, low_lvl_latex))))
            else ok (v, v))"
  from assms obtain w1 p w2 where X: "?X = (w1, Inr p)"
    and r: "(case p of (hi, lo) \<Rightarrow> ok (constant_or_pair (name_to_latex name) hi lo)) = (w2, Inr r)"
    unfolding l_transition_def Let_def by (blast dest: bind_InrD)
  obtain hi lo where p: "p = (hi, lo)" by (cases p)
  have "hi = lo"
  proof (cases "numeric_re v")
    case False
    with X p show ?thesis by (auto simp: ok_def)
  next
    case True
    let ?F = "\<lambda>((n_high, d_high), (n_low, d_low)).
                   bind_res (render n_high d_high) (\<lambda>high_lvl_latex.
                   bind_res (render n_low d_low) (\<lambda>low_lvl_latex.
                     ok (high_lvl_latex, low_lvl_latex)))"
    from True X have B: "bind_res
                (if CHR ''/'' \<in> set v then fraction_levels v v else decimal_levels v v) ?F
                = (w1, Inr p)"
      by simp
    from bind_InrD[OF B] obtain wl q wr where
      L: "(if CHR ''/'' \<in> set v then fraction_levels v v else decimal_levels v v) = (wl, Inr q)"
      and R: "?F q = (wr, Inr p)"
      by blast
    obtain x y where q: "q = (x, y)" by (cases q)
    from L q have "x = y"
      by (auto split: if_splits dest: fraction_levels_same decimal_levels_same)
    with R q p show ?thesis by (cases y) (auto dest: render_same_Inr)
  qed
  with r p show ?thesis by (auto simp: ok_def constant_or_pair_def)
qed

lemma l_transition_not_numeric:
  "\<not> numeric_re v \<Longrightarrow>
   l_transition name v v = ([], Inr (Constant (fmt_level (name_to_latex name) v), False))"
  by (simp add: l_transition_def Let_def bind_ok ok_def constant_or_pair_def)

subsection \<open>Asymmetric halves (C1)\<close>

text \<open>
  No run of the loop raises the RuntimeError of line 340, whatever the two halves are.
\<close>

lemma or_else_Raise:
  "or_else a b = Raise e \<Longrightarrow> a = Raise e \<or> (a = Skip \<and> b = Raise e)"
  by (cases a) (auto simp: or_else_def)

lemma energy_tier_no_runtime: "energy_tier re tr st \<noteq> Raise RuntimeError"
  by (cases st) (auto simp: energy_tier_def Let_def split: option.splits prod.splits if_splits)

lemma loop_body_no_runtime:
  assumes "high \<noteq> []" "low \<noteq> []"
  shows "loop_body (high, low, names, high_lvls, low_lvls) \<noteq> Raise RuntimeError"
proof
  let ?st = "(high, low, names, high_lvls, low_lvls)"
  assume "loop_body ?st = Raise RuntimeError"
  then have "el_long_tier ?st = Raise RuntimeError \<or> el_short_tier ?st = Raise RuntimeError
      \<or> hyperfine_tier ?st = Raise RuntimeError \<or> exhaustion_check ?st = Raise RuntimeError"
    unfolding loop_body_def using energy_tier_no_runtime by (blast dest: or_else_Raise)
  then show False
    using assms
    by (auto simp: el_long_tier_def el_short_tier_def hyperfine_tier_def exhaustion_check_def
        Let_def split: option.splits)
qed

lemma driver_never_runtime_error: "driver st \<noteq> Some (Inl RuntimeError)"
proof -
  have "\<forall>s r. driver s = Some r \<longrightarrow> r \<noteq> Inl RuntimeError"
  proof (induction rule: driver.fixp_induct)
    case 1
    show ?case by (rule option_admissible)
  next
    case 2
    show ?case by simp
  next
    case (3 f)
    show ?case
    proof (intro allI impI)
      fix s r
      assume eq: "(case s of (high, low, names, high_lvls, low_lvls) \<Rightarrow>
                    if high \<noteq> [] \<and> low \<noteq> [] then
                      (case loop_body s of
                         Skip \<Rightarrow> f s | Raise e \<Rightarrow> Some (Inl e) | Continue st' \<Rightarrow> f st')
                    else Some (Inr s)) = Some r"
      obtain high low names high_lvls low_lvls where s: "s = (high, low, names, high_lvls, low_lvls)"
        by (cases s)
      show "r \<noteq> Inl RuntimeError"
      proof (cases "high \<noteq> [] \<and> low \<noteq> []")
        case False
        with eq s show ?thesis by auto
      next
        case True
        then have nr: "loop_body s \<noteq> Raise RuntimeError"
          unfolding s using loop_body_no_runtime by blast
        show ?thesis
        proof (cases "loop_body s")
          case Skip
          with eq s True have "f s = Some r" by simp
          with 3 show ?thesis by blast
        next
          case (Raise e)
          with eq s True nr show ?thesis by auto
        next
          case (Continue st')
          with eq s True have "f st' = Some r" by simp
          with 3 show ?thesis by blast
        qed
      qed
    qed
  qed
  then show ?thesis by blast
qed

text \<open>
  C1 says that a descriptor whose upper half has more labels than its lower half raises
  the asymmetry error and is never rendered from a truncated list. On
  \<^verbatim>\<open>v0_j1__v0\<close> the source does the opposite: after the first label the lower half is
  empty, the loop ends, and the one label read so far is rendered; the second label of the
  upper half is dropped without any exception.
\<close>

theorem asymmetric_descriptor_truncated:
  "transition_to_latex ''v0_j1__v0'' =
     Some ([], Inr (''$'' @ [backslash] @ ''nu=0$ ( $'' @ [backslash] @ ''to$ )''))"
  by code_simp

subsection \<open>Unrecognised remainders (C2)\<close>

lemma loop_body_x_y:
  "loop_body (''x'', ''y'', [], [], []) = Continue (''x'', ''y'', [], [], [])"
  by code_simp

text \<open>
  C2 says that when both remaining halves are non-empty and no tier matches, the call
  ends by raising the unrecognised-format error, so that the driver loop terminates. On
  \<^verbatim>\<open>x__y\<close> no tier matches, the loop body changes nothing and the loop runs for ever:
  the call returns nothing and raises nothing.
\<close>

theorem unrecognised_descriptor_diverges:
  "transition_to_latex ''x__y'' = None"
proof -
  have "driver (''x'', ''y'', [], [], []) = None"
    by (rule driver_stuck) (simp_all add: loop_body_x_y)
  moreover have "count_dunder ''x__y'' = 1" by code_simp
  moreover have "split_dunder [] ''x__y'' = [''x'', ''y'']" by code_simp
  ultimately show ?thesis by (simp add: transition_to_latex_def unpack2_def)
qed

subsection \<open>The long electronic suffix (C3)\<close>

text \<open>
  Whenever both halves match the pattern of tier 4, the loop body raises AttributeError:
  tiers 1 to 3 do not match a text that begins with \<^verbatim>\<open>el\<close>.
\<close>

lemma match_alt_energy_el: "startswith s ''el'' \<Longrightarrow> match_alt energy_names s = None"
  by (cases s) (auto simp: match_alt_def energy_names_def startswith_def split: if_splits)

lemma energy_tier_skips_el:
  assumes "startswith high ''el''"
    and "re = re_fraction \<or> re = re_decimal \<or> re = re_integer"
  shows "energy_tier re tr (high, low, names, high_lvls, low_lvls) = Skip"
proof -
  from assms have "re high = None"
    by (auto simp: re_fraction_def re_decimal_def re_integer_def match_alt_energy_el)
  then show ?thesis by (simp add: energy_tier_def)
qed

lemma long_electronic_always_raises:
  assumes "re_el_long high = Some i" "re_el_long low = Some j"
  shows "loop_body (high, low, names, high_lvls, low_lvls) = Raise AttributeError"
proof -
  from assms(1) have el: "startswith high ''el''"
    by (auto simp: re_el_long_def re_el_def split: if_splits)
  show ?thesis
    unfolding loop_body_def
    using assms by (simp add: energy_tier_skips_el[OF el] or_else_def el_long_tier_def)
qed

text \<open>
  C3 says that for two halves that begin with an electronic token with a long suffix, tier
  4 succeeds and extracts what tier 5 would. On \<^verbatim>\<open>el3po__el3po\<close> tier 4 of the source
  raises AttributeError, because it calls \<^verbatim>\<open>_removeprefixes\<close> as a method of a string.
\<close>

theorem long_electronic_suffix_raises:
  "transition_to_latex ''el3po__el3po'' = Some ([], Inl AttributeError)"
  by code_simp

subsection \<open>Decimal values ending in .0 (C4)\<close>

text \<open>
  Equal decimal values with a non-empty integer part \<open>a\<close>: \<^verbatim>\<open>a.0\<close> is rendered
  as twice \<open>a\<close>, and \<^verbatim>\<open>a.5\<close> as the fraction with numerator \<open>2a+1\<close> and
  denominator 2.
\<close>

lemma decimal_zero_general:
  assumes "digits a" "a \<noteq> []"
  shows "l_transition name (a @ ''.0'') (a @ ''.0'') =
     ([], Inr (Constant (fmt_level (name_to_latex name) (str_int (2 * int_of_digits a))), False))"
proof -
  have d: "digits ''0''" by (simp add: digits_def is_digit_def)
  show ?thesis
    using l_transition_decimal[OF assms d assms d, of name]
    by (simp add: decimal_warnings_def decimal_latex_def constant_or_pair_def)
qed

lemma decimal_half_general:
  assumes "digits a" "a \<noteq> []"
  shows "l_transition name (a @ ''.5'') (a @ ''.5'') =
     ([], Inr (Constant (fmt_level (name_to_latex name) (frac (2 * int_of_digits a + 1) 2)), False))"
proof -
  have d: "digits ''5''" by (simp add: digits_def is_digit_def)
  show ?thesis
    using l_transition_decimal[OF assms d assms d, of name]
    by (simp add: decimal_warnings_def decimal_latex_def constant_or_pair_def)
qed

text \<open>
  C4 says that a decimal value \<^verbatim>\<open>a.0\<close> is rendered as the whole number \<open>a\<close> and
  \<^verbatim>\<open>a.5\<close> as the fraction with numerator \<open>2a+1\<close> and denominator 2. For \<^verbatim>\<open>3.0\<close>
  the source takes numerator 6 and denominator 1, and renders 6, not 3.
\<close>

theorem decimal_zero_doubled:
  "l_transition ''j'' ''3.0'' ''3.0'' = ([], Inr (Constant ''$J=6$'', False))"
  by code_simp

subsection \<open>The empty descriptor (C9)\<close>

lemma sort_transitions_empty: "l_sort_transitions [] [] [] = ([], Inr [])"
  by code_simp

text \<open>
  C9: for the descriptor \<^verbatim>\<open>__\<close>, whose two halves are empty, \<^verbatim>\<open>transition_to_latex\<close>
  returns the empty string and raises nothing: the loop is not entered (the driver returns
  its empty lists at once) and \<^verbatim>\<open>_sort_transitions\<close> returns at its test for an empty
  list of names.
\<close>

theorem empty_descriptor_renders_empty:
  "transition_to_latex ''__'' = Some ([], Inr [])
   \<and> driver ([], [], [], [], []) = Some (Inr ([], [], [], [], []))"
  by code_simp

subsection \<open>Fractions (C6)\<close>

text \<open>
  C6 as stated covers every fraction \<^verbatim>\<open>a/b\<close> with integers \<open>a\<close> and \<open>b\<close>, and
  promises the typeset fraction whenever \<open>b\<close> does not divide \<open>a\<close>. For the
  denominator 0 the source evaluates \<^verbatim>\<open>n_high % d_high\<close> and raises ZeroDivisionError.
\<close>

theorem fraction_zero_denominator_raises:
  "l_transition ''j'' ''1/0'' ''1/0'' = ([], Inl ZeroDivisionError)"
  by code_simp

text \<open>
  C6, amended: for every fraction \<^verbatim>\<open>a/b\<close> whose numerator and denominator are non-empty
  digit strings and whose denominator is not zero, with a lower value \<^verbatim>\<open>c/e\<close> of the
  same kind, \<^verbatim>\<open>_transition\<close> returns without warning, and each value is rendered as the
  plain quotient when the denominator divides the numerator and as the unreduced typeset
  fraction otherwise.
\<close>

theorem fraction_rendering:
  assumes "digits a" "a \<noteq> []" "digits b" "b \<noteq> []" "int_of_digits b \<noteq> 0"
    and "digits c" "c \<noteq> []" "digits e" "e \<noteq> []" "int_of_digits e \<noteq> 0"
  shows "l_transition name (a @ ''/'' @ b) (c @ ''/'' @ e) =
     ([], Inr (constant_or_pair (name_to_latex name) (fraction_latex a b) (fraction_latex c e)))"
  using l_transition_fraction[OF assms(1,2,3,4,6,7,8,9,5,10)] by simp

theorem fraction_rendering_witness:
  "digits ''4'' \<and> digits ''2'' \<and> int_of_digits ''2'' \<noteq> 0 \<and> digits ''3''
   \<and> l_transition ''j'' ''4/2'' ''3/2'' =
       ([], Inr (Transition ''$J=2$'' (''$J='' @ [backslash] @ ''frac{3}{2}$''), True))"
proof -
  have d: "digits ''4''" "digits ''2''" "digits ''3''" by code_simp+
  have n: "int_of_digits ''2'' \<noteq> 0" by code_simp
  have r: "constant_or_pair (name_to_latex ''j'') (fraction_latex ''4'' ''2'')
             (fraction_latex ''3'' ''2'')
      = (Transition ''$J=2$'' (''$J='' @ [backslash] @ ''frac{3}{2}$''), True)"
    by code_simp
  from fraction_rendering[OF d(1) _ d(2) _ n d(3) _ d(2) _ n, of "''j''"]
  have "l_transition ''j'' ''4/2'' ''3/2'' =
      ([], Inr (constant_or_pair (name_to_latex ''j'') (fraction_latex ''4'' ''2'')
                  (fraction_latex ''3'' ''2'')))"
    by simp
  with d n r show ?thesis by simp
qed

subsection \<open>Equal values (C7)\<close>

text \<open>
  C7 as stated promises a single constant string for every pair of equal values. The
  value \<^verbatim>\<open>.5\<close>, which the descriptor \<^verbatim>\<open>jd5__jd5\<close> hands to \<^verbatim>\<open>_transition\<close>, has
  the numeric form, and \<^verbatim>\<open>int("")\<close> raises ValueError on its empty integer part:
  nothing is returned.
\<close>

theorem equal_values_can_raise:
  "l_transition ''j'' ''.5'' ''.5'' = ([], Inl ValueError)"
  by code_simp

text \<open>
  C7, amended: for every value \<open>v\<close>, \<^verbatim>\<open>_eltransition(v, v)\<close> returns one string and
  the flag False; \<^verbatim>\<open>_transition(name, v, v)\<close> never returns a pair, and it returns one
  string and the flag False whenever \<open>v\<close> does not have the numeric form, or is a
  decimal with a non-empty integer part, or is a fraction with a non-empty numerator and
  a non-empty denominator that is not zero. (On the other values of numeric form it
  raises.)
\<close>

theorem equal_values_constant:
  "l_eltransition v v = (Constant (''$'' @ v @ ''$''), False)
   \<and> (\<forall>w r. l_transition name v v = (w, Inr r) \<longrightarrow> (\<exists>s. r = (Constant s, False)))
   \<and> (\<not> numeric_re v \<longrightarrow>
        l_transition name v v = ([], Inr (Constant (fmt_level (name_to_latex name) v), False)))
   \<and> (\<forall>a b. v = a @ ''.'' @ b \<and> digits a \<and> a \<noteq> [] \<and> digits b \<longrightarrow>
        (\<exists>w s. l_transition name v v = (w, Inr (Constant s, False))))
   \<and> (\<forall>a b. v = a @ ''/'' @ b \<and> digits a \<and> a \<noteq> [] \<and> digits b \<and> b \<noteq> []
          \<and> int_of_digits b \<noteq> 0 \<longrightarrow>
        (\<exists>w s. l_transition name v v = (w, Inr (Constant s, False))))"
proof (intro conjI allI impI)
  show "l_eltransition v v = (Constant (''$'' @ v @ ''$''), False)"
    by (simp add: l_eltransition_def)
next
  fix w r assume "l_transition name v v = (w, Inr r)"
  then show "\<exists>s. r = (Constant s, False)" by (rule l_transition_same_never_pair)
next
  assume "\<not> numeric_re v"
  then show "l_transition name v v = ([], Inr (Constant (fmt_level (name_to_latex name) v), False))"
    by (rule l_transition_not_numeric)
next
  fix a b assume h: "v = a @ ''.'' @ b \<and> digits a \<and> a \<noteq> [] \<and> digits b"
  then have "l_transition name v v =
     (decimal_warnings b @ decimal_warnings b,
      Inr (constant_or_pair (name_to_latex name) (decimal_latex a b) (decimal_latex a b)))"
    using l_transition_decimal[of a b a b name] by simp
  then show "\<exists>w s. l_transition name v v = (w, Inr (Constant s, False))"
    by (simp add: constant_or_pair_def)
next
  fix a b assume h: "v = a @ ''/'' @ b \<and> digits a \<and> a \<noteq> [] \<and> digits b \<and> b \<noteq> []
          \<and> int_of_digits b \<noteq> 0"
  then have "l_transition name v v =
     ([], Inr (constant_or_pair (name_to_latex name) (fraction_latex a b) (fraction_latex a b)))"
    using l_transition_fraction[of a b a b name] by simp
  then show "\<exists>w s. l_transition name v v = (w, Inr (Constant s, False))"
    by (simp add: constant_or_pair_def)
qed

theorem equal_values_constant_witness:
  "l_eltransition ''3p'' ''3p'' = (Constant ''$3p$'', False)
   \<and> \<not> numeric_re ''12''
   \<and> l_transition ''j'' ''12'' ''12'' = ([], Inr (Constant ''$J=12$'', False))
   \<and> digits ''2'' \<and> digits ''5''
   \<and> (\<exists>w s. l_transition ''j'' ''2.5'' ''2.5'' = (w, Inr (Constant s, False)))
   \<and> int_of_digits ''2'' \<noteq> 0
   \<and> (\<exists>w s. l_transition ''j'' ''3/2'' ''3/2'' = (w, Inr (Constant s, False)))"
proof -
  have nn: "\<not> numeric_re ''12''" by code_simp
  have d: "digits ''2''" "digits ''5''" "digits ''3''" by code_simp+
  have n: "int_of_digits ''2'' \<noteq> 0" by code_simp
  have f: "fmt_level (name_to_latex ''j'') ''12'' = ''$J=12$''" by code_simp
  note t1 = equal_values_constant[of "''3p''" "''j''"]
  note t2 = equal_values_constant[of "''12''" "''j''"]
  note t3 = equal_values_constant[of "''2.5''" "''j''"]
  note t4 = equal_values_constant[of "''3/2''" "''j''"]
  have a: "l_eltransition ''3p'' ''3p'' = (Constant ''$3p$'', False)" using t1 by simp
  have b: "l_transition ''j'' ''12'' ''12'' = ([], Inr (Constant ''$J=12$'', False))"
    using t2 nn f by simp
  have c: "\<exists>w s. l_transition ''j'' ''2.5'' ''2.5'' = (w, Inr (Constant s, False))"
  proof -
    from t3 have "\<forall>a b. ''2.5'' = a @ ''.'' @ b \<and> digits a \<and> a \<noteq> [] \<and> digits b \<longrightarrow>
        (\<exists>w s. l_transition ''j'' ''2.5'' ''2.5'' = (w, Inr (Constant s, False)))"
      by blast
    from this[rule_format, of "''2''" "''5''"] d show ?thesis by simp
  qed
  have e: "\<exists>w s. l_transition ''j'' ''3/2'' ''3/2'' = (w, Inr (Constant s, False))"
  proof -
    from t4 have "\<forall>a b. ''3/2'' = a @ ''/'' @ b \<and> digits a \<and> a \<noteq> [] \<and> digits b \<and> b \<noteq> []
          \<and> int_of_digits b \<noteq> 0 \<longrightarrow>
        (\<exists>w s. l_transition ''j'' ''3/2'' ''3/2'' = (w, Inr (Constant s, False)))"
      by blast
    from this[rule_format, of "''3''" "''2''"] d n show ?thesis by simp
  qed
  from a nn b d c n e show ?thesis by blast
qed

subsection \<open>Unsupported fractional digits (C8)\<close>

text \<open>
  C8: for every decimal value \<^verbatim>\<open>a.b\<close> with an integer part \<open>a\<close> and a fractional part
  \<open>b\<close> that is neither \<^verbatim>\<open>0\<close> nor \<^verbatim>\<open>5\<close>, \<^verbatim>\<open>_transition\<close> emits the warning about
  \<open>b\<close> first, does not raise, and renders the value as its integer part alone
  (numerator the integer part, denominator 1). The lower value is any decimal \<^verbatim>\<open>c.e\<close>
  with an integer part; when it is the same value, the result is the one constant string
  of the integer part, after the two warnings.
\<close>

theorem unsupported_digit_falls_back:
  assumes "digits a" "a \<noteq> []" "digits b" "b \<noteq> ''0''" "b \<noteq> ''5''"
    and "digits c" "c \<noteq> []" "digits e"
  shows "(\<exists>ws lo. l_transition name (a @ ''.'' @ b) (c @ ''.'' @ e) =
            (unsupported_msg b # ws,
             Inr (constant_or_pair (name_to_latex name) (str_int (int_of_digits a)) lo)))
         \<and> l_transition name (a @ ''.'' @ b) (a @ ''.'' @ b) =
            ([unsupported_msg b, unsupported_msg b],
             Inr (Constant (fmt_level (name_to_latex name) (str_int (int_of_digits a))), False))
         \<and> half_level a b = ([unsupported_msg b], Inr (int_of_digits a, 1))"
proof (intro conjI)
  have w: "decimal_warnings b = [unsupported_msg b]"
    using assms by (simp add: decimal_warnings_def)
  have l: "decimal_latex a b = str_int (int_of_digits a)"
    using assms by (simp add: decimal_latex_def)
  have "l_transition name (a @ ''.'' @ b) (c @ ''.'' @ e) =
     (unsupported_msg b # decimal_warnings e,
      Inr (constant_or_pair (name_to_latex name) (str_int (int_of_digits a)) (decimal_latex c e)))"
    using l_transition_decimal[OF assms(1,2,3,6,7,8), of name] w l by simp
  then show "\<exists>ws lo. l_transition name (a @ ''.'' @ b) (c @ ''.'' @ e) =
            (unsupported_msg b # ws,
             Inr (constant_or_pair (name_to_latex name) (str_int (int_of_digits a)) lo))"
    by blast
  show "l_transition name (a @ ''.'' @ b) (a @ ''.'' @ b) =
            ([unsupported_msg b, unsupported_msg b],
             Inr (Constant (fmt_level (name_to_latex name) (str_int (int_of_digits a))), False))"
    using l_transition_decimal[OF assms(1,2,3,1,2,3), of name] w l
    by (simp add: constant_or_pair_def)
  show "half_level a b = ([unsupported_msg b], Inr (int_of_digits a, 1))"
    using half_level_wf[OF assms(1,2), of b] w assms by simp
qed

theorem unsupported_digit_falls_back_witness:
  "digits ''2'' \<and> digits ''3''
   \<and> l_transition ''j'' ''2.3'' ''2.3'' =
       ([''x.3 floats has not been implemented. Ignoring the floating part.'',
         ''x.3 floats has not been implemented. Ignoring the floating part.''],
        Inr (Constant ''$J=2$'', False))"
proof -
  have d: "digits ''2''" "digits ''3''" by code_simp+
  have ne: "''2'' \<noteq> []" "''3'' \<noteq> ''0''" "''3'' \<noteq> ''5''" by simp_all
  have m: "unsupported_msg ''3'' =
      ''x.3 floats has not been implemented. Ignoring the floating part.''"
    by code_simp
  have f: "fmt_level (name_to_latex ''j'') (str_int (int_of_digits ''2'')) = ''$J=2$''"
    by code_simp
  from unsupported_digit_falls_back[OF d(1) ne(1) d(2) ne(2) ne(3) d(1) ne(1) d(2), of "''j''"]
  have "l_transition ''j'' (''2'' @ ''.'' @ ''3'') (''2'' @ ''.'' @ ''3'') =
            ([unsupported_msg ''3'', unsupported_msg ''3''],
             Inr (Constant (fmt_level (name_to_latex ''j'') (str_int (int_of_digits ''2''))), False))"
    by blast
  with d m f show ?thesis by simp
qed

subsection \<open>The heap across \<^verbatim>\<open>filter_molecules\<close>\<close>

text \<open>
  The loop of lines 202 and 203 maps the list in place; the rest of the function only
  allocates.
\<close>

lemma normalise_fold:
  assumes "a < length h" "n \<le> length (h ! a)"
  shows "fold (\<lambda>i h'. h'[a := (h' ! a)[i := f (h' ! a ! i)]]) [0..<n] h =
         h[a := map f (take n (h ! a)) @ drop n (h ! a)]"
  using assms(2)
proof (induction n)
  case 0
  then show ?case by simp
next
  case (Suc n)
  let ?xs = "h ! a"
  from Suc have n: "n < length ?xs" by simp
  have "(map f (take n ?xs) @ drop n ?xs)[n := f ((map f (take n ?xs) @ drop n ?xs) ! n)]
        = map f (take (Suc n) ?xs) @ drop (Suc n) ?xs"
    using n by (simp add: take_Suc_conv_app_nth list_update_append nth_append
        upd_conv_take_nth_drop min_def Cons_nth_drop_Suc)
  with Suc assms(1) n show ?case by simp
qed

lemma normalise_in_place_eq:
  "a < length h \<Longrightarrow> normalise_in_place h a = h[a := map (\<lambda>m. lower (strip m)) (h ! a)]"
  unfolding normalise_in_place_def
  by (subst normalise_fold) simp_all


lemma select_lines_frame:
  "k < length h \<Longrightarrow> fst (select_lines h names mols) ! k = h ! k"
  by (auto simp: select_lines_def alloc_def Let_def nth_append split: sum.splits)

lemma select_lines_length:
  "length h \<le> length (fst (select_lines h names mols))"
  by (auto simp: select_lines_def alloc_def Let_def split: sum.splits)

lemma filter_molecules_none: "filter_molecules h names MolsNone = (h, Inr names)"
  by (simp add: filter_molecules_def)

lemma filter_molecules_list_mutates:
  assumes "a < length h"
  shows "fst (filter_molecules h names (MolsList a)) ! a = map (\<lambda>m. lower (strip m)) (h ! a)"
  using assms
  by (simp add: filter_molecules_def select_lines_frame normalise_in_place_eq)

lemma filter_molecules_frame:
  assumes "k < length h" "mols \<noteq> MolsList k" "\<And>a. mols = MolsList a \<Longrightarrow> a < length h"
  shows "fst (filter_molecules h names mols) ! k = h ! k"
proof (cases mols)
  case MolsNone
  then show ?thesis by (simp add: filter_molecules_def)
next
  case (MolsStr m)
  have "length h < length (h @ [[m]])" by simp
  then have "normalise_in_place (h @ [[m]]) (length h) =
      (h @ [[m]])[length h := map (\<lambda>m. lower (strip m)) ((h @ [[m]]) ! length h)]"
    by (rule normalise_in_place_eq)
  with MolsStr assms show ?thesis
    by (simp add: filter_molecules_def alloc_def select_lines_frame nth_append)
next
  case (MolsList a)
  with assms have "a \<noteq> k" "a < length h" by simp_all
  with MolsList assms show ?thesis
    by (simp add: filter_molecules_def select_lines_frame normalise_in_place_eq)
qed

subsection \<open>The effects of \<^verbatim>\<open>filter_molecules\<close> (C10)\<close>

text \<open>
  C10 as stated says that the contents of \<open>names\<close> are never modified. When the same
  list object is passed as \<open>names\<close> and as \<open>mols\<close>, the loop of lines 202 and 203
  rewrites it: the list at address 0 holds \<^verbatim>\<open>CO_j1__j0\<close> before the call and
  \<^verbatim>\<open>co_j1__j0\<close> after it.
\<close>

theorem names_modified_when_aliased:
  "filter_molecules [[''CO_j1__j0'']] 0 (MolsList 0) = ([[''co_j1__j0''], []], Inr 1)"
  by code_simp

text \<open>
  C10, amended: when \<open>mols\<close> is None, \<^verbatim>\<open>filter_molecules\<close> returns the list object
  \<open>names\<close> itself and changes nothing; when \<open>mols\<close> is a list, the call replaces each
  of its entries by its stripped lowercase form, in place (also when the call then raises);
  and the contents of \<open>names\<close> are not modified unless \<open>names\<close> is that same list
  object.
\<close>

theorem filter_molecules_effects:
  assumes "names < length h" "\<And>a. mols = MolsList a \<Longrightarrow> a < length h"
  shows "(mols = MolsNone \<longrightarrow> filter_molecules h names mols = (h, Inr names))
       \<and> (\<forall>a. mols = MolsList a \<longrightarrow>
            fst (filter_molecules h names mols) ! a = map (\<lambda>m. lower (strip m)) (h ! a))
       \<and> (mols \<noteq> MolsList names \<longrightarrow> fst (filter_molecules h names mols) ! names = h ! names)"
proof (intro conjI allI impI)
  assume "mols = MolsNone"
  then show "filter_molecules h names mols = (h, Inr names)"
    by (simp add: filter_molecules_none)
next
  fix a assume m: "mols = MolsList a"
  with assms(2) have "a < length h" by simp
  with m show "fst (filter_molecules h names mols) ! a = map (\<lambda>m. lower (strip m)) (h ! a)"
    by (simp add: filter_molecules_list_mutates)
next
  assume "mols \<noteq> MolsList names"
  with assms show "fst (filter_molecules h names mols) ! names = h ! names"
    by (intro filter_molecules_frame) simp_all
qed

theorem filter_molecules_effects_witness:
  "fst (filter_molecules [[''CO_j1__j0'', ''h2o_x''], ['' 13CO '', ''H2O'']] 0 (MolsList 1)) ! 1
     = [''13co'', ''h2o'']
   \<and> fst (filter_molecules [[''CO_j1__j0'', ''h2o_x''], ['' 13CO '', ''H2O'']] 0 (MolsList 1)) ! 0
     = [''CO_j1__j0'', ''h2o_x'']
   \<and> filter_molecules [[''CO_j1__j0'', ''h2o_x''], ['' 13CO '', ''H2O'']] 0 MolsNone
     = ([[''CO_j1__j0'', ''h2o_x''], ['' 13CO '', ''H2O'']], Inr 0)"
proof -
  let ?h = "[[''CO_j1__j0'', ''h2o_x''], ['' 13CO '', ''H2O'']]"
  have n: "(0::nat) < length ?h" by simp
  have l: "\<And>a. MolsList 1 = MolsList a \<Longrightarrow> a < length ?h" by simp
  have k: "\<And>a. MolsNone = MolsList a \<Longrightarrow> a < length ?h" by simp
  have v: "map (\<lambda>m. lower (strip m)) ['' 13CO '', ''H2O''] = [''13co'', ''h2o'']"
    by code_simp
  have t1: "(MolsList 1 = MolsNone \<longrightarrow> filter_molecules ?h 0 (MolsList 1) = (?h, Inr 0))
       \<and> (\<forall>a. MolsList 1 = MolsList a \<longrightarrow>
            fst (filter_molecules ?h 0 (MolsList 1)) ! a = map (\<lambda>m. lower (strip m)) (?h ! a))
       \<and> (MolsList 1 \<noteq> MolsList 0 \<longrightarrow> fst (filter_molecules ?h 0 (MolsList 1)) ! 0 = ?h ! 0)"
    using n l by (rule filter_molecules_effects)
  have t2: "(MolsNone = MolsNone \<longrightarrow> filter_molecules ?h 0 MolsNone = (?h, Inr 0))
       \<and> (\<forall>a. MolsNone = MolsList a \<longrightarrow>
            fst (filter_molecules ?h 0 MolsNone) ! a = map (\<lambda>m. lower (strip m)) (?h ! a))
       \<and> (MolsNone \<noteq> MolsList 0 \<longrightarrow> fst (filter_molecules ?h 0 MolsNone) ! 0 = ?h ! 0)"
    using n k by (rule filter_molecules_effects)
  from t1 have "fst (filter_molecules ?h 0 (MolsList 1)) ! 1 =
      map (\<lambda>m. lower (strip m)) (?h ! 1)"
    by blast
  with v have a: "fst (filter_molecules ?h 0 (MolsList 1)) ! 1 = [''13co'', ''h2o'']"
    by simp
  from t1 have b: "fst (filter_molecules ?h 0 (MolsList 1)) ! 0 = [''CO_j1__j0'', ''h2o_x'']"
    by simp
  from t2 have c: "filter_molecules ?h 0 MolsNone = (?h, Inr 0)" by simp
  from a b c show ?thesis by simp
qed

subsection \<open>The assembler\<close>

lemma snd_bind:
  "snd (bind_res m f) = (case snd m of Inl e \<Rightarrow> Inl e | Inr x \<Rightarrow> snd (f x))"
  by (cases m) (auto simp: bind_res_def split: sum.splits prod.splits)

lemma fmt_level_dollar: "fmt_level n v = ''$'' @ (n @ ''='' @ v) @ ''$''"
  by (simp add: fmt_level_def)

lemma constant_or_pair_shape:
  "(\<exists>s. constant_or_pair n hi lo = (Constant (''$'' @ s @ ''$''), False))
   \<or> (\<exists>a b. constant_or_pair n hi lo = (Transition a b, True))"
  unfolding constant_or_pair_def using fmt_level_dollar by (cases "hi = lo") auto

lemma l_transition_shape:
  assumes "snd (l_transition name h l) = Inr r"
  shows "(\<exists>s. r = (Constant (''$'' @ s @ ''$''), False)) \<or> (\<exists>a b. r = (Transition a b, True))"
proof -
  obtain w where "l_transition name h l = (w, Inr r)"
    using assms by (cases "l_transition name h l") simp
  then obtain w1 p w2 where
    "(case p of (hi, lo) \<Rightarrow> ok (constant_or_pair (name_to_latex name) hi lo)) = (w2, Inr r)"
    unfolding l_transition_def Let_def by (blast dest: bind_InrD)
  then obtain hi lo where "r = constant_or_pair (name_to_latex name) hi lo"
    by (cases p) (auto simp: ok_def)
  then show ?thesis using constant_or_pair_shape[of "name_to_latex name" hi lo] by simp
qed

lemma classify_label_shape:
  assumes "snd (classify_label name h l) = Inr r"
  shows "(\<exists>s. r = (Constant (''$'' @ s @ ''$''), False)) \<or> (\<exists>a b. r = (Transition a b, True))"
proof (cases "name = ''el''")
  case True
  with assms have "r = l_eltransition h l" by (simp add: classify_label_def ok_def)
  then show ?thesis by (auto simp: l_eltransition_def)
next
  case False
  with assms have "snd (l_transition name h l) = Inr r" by (simp add: classify_label_def)
  then show ?thesis by (rule l_transition_shape)
qed

lemma constants_of_Cons:
  "constants_of ((Constant s, t) # rs) = s # constants_of rs"
  "constants_of ((Transition a b, t) # rs) = constants_of rs"
  "constants_of [] = []"
  by (simp_all add: constants_of_def)

lemma highs_of_Cons:
  "highs_of ((Constant s, t) # rs) = highs_of rs"
  "highs_of ((Transition a b, t) # rs) = a # highs_of rs"
  "highs_of [] = []"
  by (simp_all add: highs_of_def)

lemma lows_of_Cons:
  "lows_of ((Constant s, t) # rs) = lows_of rs"
  "lows_of ((Transition a b, t) # rs) = b # lows_of rs"
  "lows_of [] = []"
  by (simp_all add: lows_of_def)

lemma sort_loop_acc:
  assumes "classified xs rs"
  shows "snd (sort_loop xs (d0, d1a, d1b)) =
     Inr (d0 @ concat (map (\<lambda>s. s @ '' '') (constants_of rs)),
          d1a @ concat (map (\<lambda>s. s @ '', '') (highs_of rs)),
          d1b @ concat (map (\<lambda>s. s @ '', '') (lows_of rs)))"
  using assms unfolding classified_def
proof (induction xs rs arbitrary: d0 d1a d1b rule: list_all2_induct)
  case Nil
  show ?case by (simp add: ok_def constants_of_Cons highs_of_Cons lows_of_Cons)
next
  case (Cons x xs r rs)
  obtain name h l where x: "x = (name, h, l)" by (cases x)
  with Cons.hyps have c: "snd (classify_label name h l) = Inr r" by simp
  from classify_label_shape[OF c] show ?case
  proof
    assume "\<exists>s. r = (Constant (''$'' @ s @ ''$''), False)"
    then obtain s where r: "r = (Constant (''$'' @ s @ ''$''), False)" ..
    have "snd (sort_loop (x # xs) (d0, d1a, d1b)) =
          snd (sort_loop xs (d0 @ (''$'' @ s @ ''$'') @ '' '', d1a, d1b))"
      using c by (simp add: x snd_bind r descr_plus_def bind_ok')
    also have "\<dots> = Inr ((d0 @ (''$'' @ s @ ''$'') @ '' '') @ concat (map (\<lambda>s. s @ '' '') (constants_of rs)),
          d1a @ concat (map (\<lambda>s. s @ '', '') (highs_of rs)),
          d1b @ concat (map (\<lambda>s. s @ '', '') (lows_of rs)))"
      by (rule Cons.IH)
    finally show ?thesis by (simp add: r constants_of_Cons highs_of_Cons lows_of_Cons)
  next
    assume "\<exists>a b. r = (Transition a b, True)"
    then obtain a b where r: "r = (Transition a b, True)" by blast
    have "snd (sort_loop (x # xs) (d0, d1a, d1b)) =
          snd (sort_loop xs (d0, d1a @ a @ '', '', d1b @ b @ '', ''))"
      using c by (simp add: x snd_bind r descr_index_def bind_ok')
    also have "\<dots> = Inr (d0 @ concat (map (\<lambda>s. s @ '' '') (constants_of rs)),
          (d1a @ a @ '', '') @ concat (map (\<lambda>s. s @ '', '') (highs_of rs)),
          (d1b @ b @ '', '') @ concat (map (\<lambda>s. s @ '', '') (lows_of rs)))"
      by (rule Cons.IH)
    finally show ?thesis by (simp add: r constants_of_Cons highs_of_Cons lows_of_Cons)
  qed
qed

lemma concat_sep:
  "concat (map (\<lambda>s. s @ sep) xs) = (if xs = [] then [] else join sep xs @ sep)"
  by (induction sep xs rule: join.induct) auto

lemma drop_last2_sep: "drop_last2 (s @ '', '') = s"
  by (simp add: drop_last2_def)

lemma drop_last2_nil: "drop_last2 [] = []"
  by (simp add: drop_last2_def)

lemma join_dollar:
  assumes "cs \<noteq> []" "\<forall>s\<in>set cs. \<exists>t. s = ''$'' @ t @ ''$''"
  shows "\<exists>t. join sep cs = ''$'' @ t @ ''$''"
  using assms
proof (induction sep cs rule: join.induct)
  case (1 sep)
  then show ?case by simp
next
  case (2 sep x)
  then show ?case by simp
next
  case (3 sep x y r)
  then obtain t where t: "x = ''$'' @ t @ ''$''" by auto
  from 3 obtain u where u: "join sep (y # r) = ''$'' @ u @ ''$''" by auto
  have "join sep (x # y # r) = ''$'' @ (t @ ''$'' @ sep @ ''$'' @ u) @ ''$''"
    by (simp add: t u)
  then show ?case by blast
qed

lemma strip_dollar: "strip ((''$'' @ t @ ''$'') @ '' '') = ''$'' @ t @ ''$''"
proof -
  have a: "\<not> is_space CHR ''$''" and b: "is_space CHR '' ''" by (simp_all add: is_space_def)
  show ?thesis by (simp add: strip_def a b)
qed

lemma strip_nil: "strip [] = []"
  by (simp add: strip_def)

lemma classified_constants_dollar:
  assumes "classified xs rs"
  shows "\<forall>s\<in>set (constants_of rs). \<exists>t. s = ''$'' @ t @ ''$''"
  using assms unfolding classified_def
proof (induction xs rs rule: list_all2_induct)
  case Nil
  show ?case by (simp add: constants_of_Cons)
next
  case (Cons x xs r rs)
  obtain name h l where x: "x = (name, h, l)" by (cases x)
  with Cons.hyps have c: "snd (classify_label name h l) = Inr r" by simp
  from classify_label_shape[OF c] Cons.IH show ?case
    by (auto simp: constants_of_Cons)
qed

lemma strip_constants:
  assumes "classified xs rs"
  shows "strip (concat (map (\<lambda>s. s @ '' '') (constants_of rs))) = join '' '' (constants_of rs)"
proof (cases "constants_of rs = []")
  case True
  then show ?thesis by (simp add: strip_nil)
next
  case False
  with classified_constants_dollar[OF assms] obtain t where
    "join '' '' (constants_of rs) = ''$'' @ t @ ''$''"
    using join_dollar by blast
  with False show ?thesis using strip_dollar[of t] by (simp add: concat_sep)
qed

lemma sort_transitions_assembles:
  assumes "length high_lvls = length names" "length low_lvls = length names" "names \<noteq> []"
    and "classified (zip names (zip high_lvls low_lvls)) rs"
  shows "snd (l_sort_transitions names high_lvls low_lvls) =
     Inr (join '' '' (constants_of rs) @ '' ('' @ join '', '' (highs_of rs) @ '' $'' @ [backslash]
          @ ''to$ '' @ join '', '' (lows_of rs) @ '')'')"
proof -
  have s: "snd (sort_loop (zip names (zip high_lvls low_lvls)) ([], [], [])) =
     Inr ([] @ concat (map (\<lambda>s. s @ '' '') (constants_of rs)),
          [] @ concat (map (\<lambda>s. s @ '', '') (highs_of rs)),
          [] @ concat (map (\<lambda>s. s @ '', '') (lows_of rs)))"
    using assms(4) by (rule sort_loop_acc)
  have h: "drop_last2 (concat (map (\<lambda>s. s @ '', '') (highs_of rs))) = join '', '' (highs_of rs)"
    using drop_last2_sep[of "join '', '' (highs_of rs)"] by (simp add: concat_sep drop_last2_nil)
  have l: "drop_last2 (concat (map (\<lambda>s. s @ '', '') (lows_of rs))) = join '', '' (lows_of rs)"
    using drop_last2_sep[of "join '', '' (lows_of rs)"] by (simp add: concat_sep drop_last2_nil)
  show ?thesis
    using assms(1,2,3) s
    by (simp add: l_sort_transitions_def snd_bind ok_def strip_constants[OF assms(4)] h l)
qed

subsection \<open>Constants first, then the transitions (C5)\<close>

text \<open>
  C5: for the descriptor \<^verbatim>\<open>v0_j1__v0_j0\<close> the driver accumulates the labels \<open>v\<close>
  (values 0 and 0, a constant) and \<open>j\<close> (values 1 and 0, a transition), and the final
  string has the rendered constant first, then the parenthesised pair of the upper and
  the lower side. In general, for a non-empty list of labels that classify without
  raising, the assembler returns the constants in their order joined by spaces, then in
  parentheses the upper sides joined by commas, the arrow, and the lower sides joined by
  commas.
\<close>

theorem constants_before_transitions:
  "transition_to_latex ''v0_j1__v0_j0'' =
     Some ([], Inr (''$'' @ [backslash] @ ''nu=0$ ($J=1$ $'' @ [backslash] @ ''to$ $J=0$)''))
   \<and> driver (''v0_j1'', ''v0_j0'', [], [], []) =
       Some (Inr ([], [], [''v'', ''j''], [''0'', ''1''], [''0'', ''0'']))
   \<and> classify_label ''v'' ''0'' ''0'' =
       ([], Inr (Constant (''$'' @ [backslash] @ ''nu=0$''), False))
   \<and> classify_label ''j'' ''1'' ''0'' = ([], Inr (Transition ''$J=1$'' ''$J=0$'', True))
   \<and> (\<forall>names high_lvls low_lvls rs.
         length high_lvls = length names \<and> length low_lvls = length names \<and> names \<noteq> []
         \<and> classified (zip names (zip high_lvls low_lvls)) rs \<longrightarrow>
         snd (l_sort_transitions names high_lvls low_lvls) =
           Inr (join '' '' (constants_of rs) @ '' ('' @ join '', '' (highs_of rs) @ '' $''
                @ [backslash] @ ''to$ '' @ join '', '' (lows_of rs) @ '')''))"
proof (intro conjI allI impI)
  show "transition_to_latex ''v0_j1__v0_j0'' =
     Some ([], Inr (''$'' @ [backslash] @ ''nu=0$ ($J=1$ $'' @ [backslash] @ ''to$ $J=0$)''))"
    by code_simp
  show "driver (''v0_j1'', ''v0_j0'', [], [], []) =
       Some (Inr ([], [], [''v'', ''j''], [''0'', ''1''], [''0'', ''0'']))"
    by code_simp
  show "classify_label ''v'' ''0'' ''0'' =
       ([], Inr (Constant (''$'' @ [backslash] @ ''nu=0$''), False))"
    by code_simp
  show "classify_label ''j'' ''1'' ''0'' = ([], Inr (Transition ''$J=1$'' ''$J=0$'', True))"
    by code_simp
next
  fix names high_lvls low_lvls rs
  assume "length high_lvls = length names \<and> length low_lvls = length names \<and> names \<noteq> []
         \<and> classified (zip names (zip high_lvls low_lvls)) rs"
  then show "snd (l_sort_transitions names high_lvls low_lvls) =
           Inr (join '' '' (constants_of rs) @ '' ('' @ join '', '' (highs_of rs) @ '' $''
                @ [backslash] @ ''to$ '' @ join '', '' (lows_of rs) @ '')'')"
    using sort_transitions_assembles by blast
qed

theorem constants_before_transitions_witness:
  "classified (zip [''v'', ''j''] (zip [''0'', ''1''] [''0'', ''0'']))
     [(Constant (''$'' @ [backslash] @ ''nu=0$''), False), (Transition ''$J=1$'' ''$J=0$'', True)]
   \<and> snd (l_sort_transitions [''v'', ''j''] [''0'', ''1''] [''0'', ''0'']) =
       Inr (''$'' @ [backslash] @ ''nu=0$ ($J=1$ $'' @ [backslash] @ ''to$ $J=0$)'')"
proof -
  let ?rs = "[(Constant (''$'' @ [backslash] @ ''nu=0$''), False),
              (Transition ''$J=1$'' ''$J=0$'', True)]"
  have c: "classified (zip [''v'', ''j''] (zip [''0'', ''1''] [''0'', ''0''])) ?rs"
    using constants_before_transitions by (simp add: classified_def)
  have j: "join '' '' (constants_of ?rs) @ '' ('' @ join '', '' (highs_of ?rs) @ '' $''
                @ [backslash] @ ''to$ '' @ join '', '' (lows_of ?rs) @ '')'' =
           ''$'' @ [backslash] @ ''nu=0$ ($J=1$ $'' @ [backslash] @ ''to$ $J=0$)''"
    by (simp add: constants_of_def highs_of_def lows_of_def)
  from constants_before_transitions
  have "\<forall>names high_lvls low_lvls rs.
         length high_lvls = length names \<and> length low_lvls = length names \<and> names \<noteq> []
         \<and> classified (zip names (zip high_lvls low_lvls)) rs \<longrightarrow>
         snd (l_sort_transitions names high_lvls low_lvls) =
           Inr (join '' '' (constants_of rs) @ '' ('' @ join '', '' (highs_of rs) @ '' $''
                @ [backslash] @ ''to$ '' @ join '', '' (lows_of rs) @ '')'')"
    by blast
  from this[rule_format, of "[''0'', ''1'']" "[''v'', ''j'']" "[''0'', ''0'']" ?rs] c
  have "snd (l_sort_transitions [''v'', ''j''] [''0'', ''1''] [''0'', ''0'']) =
           Inr (join '' '' (constants_of ?rs) @ '' ('' @ join '', '' (highs_of ?rs) @ '' $''
                @ [backslash] @ ''to$ '' @ join '', '' (lows_of ?rs) @ '')'')"
    by simp
  with j c show ?thesis by simp
qed

end
